theory Spec2Isabelle
  imports Main "HOL-Library.AList"
begin

section \<open>Data model\<close>

text \<open>
  Identifiers are the ObjectIds of the store (users, conversations, messages, chat
  requests) and the socket ids of the transport. They are modelled as natural numbers: a
  payload field that holds an id is either absent (\<open>None\<close>, the falsy \<open>undefined\<close>) or a
  well-formed id. Dates are a logical clock; every handler that calls \<open>new Date()\<close> takes
  the current time as a parameter.
\<close>

type_synonym userId = nat
type_synonym socketId = nat
type_synonym objectId = nat
type_synonym date = nat

text \<open>models/Message.js: the \<open>status\<close> enum and the fields of a message. The optional
  \<open>metadata\<close> sub-document and \<open>deletedAt\<close> are carried by no handler modelled here and
  are left out.\<close>

datatype status = Sent | Delivered | Read

record message =
  msg_id :: objectId
  conversationId :: objectId
  sender :: userId
  receiver :: userId
  mtype :: string
  content :: string
  status :: status
  isDeleted :: bool

text \<open>models/Conversation.js: \<open>unreadCount\<close> is a Map from user id to Number, kept as an
  association list in insertion order.\<close>

record conversation =
  conv_id :: objectId
  participants :: "userId list"
  lastMessage :: "objectId option"
  unreadCount :: "(userId \<times> nat) list"
  updatedAt :: date

text \<open>models/ChatRequest.js\<close>

datatype requestStatus = Pending | Accepted | Rejected

record chatRequest =
  req_id :: objectId
  req_sender :: userId
  req_receiver :: userId
  req_status :: requestStatus

text \<open>models/User.js: only the presence fields, the ones the socket handlers write.\<close>

record user =
  isOnline :: bool
  lastSeen :: date
  socketId :: "socketId option"

text \<open>
  The state of the process: the four collections of the store, the module-level
  \<open>connectedUsers\<close> Map of the socket handlers (one socket id per user id), and the
  generator of fresh ObjectIds.
\<close>

record state =
  conversations :: "conversation list"
  messages :: "message list"
  chatRequests :: "chatRequest list"
  users :: "(userId \<times> user) list"
  connectedUsers :: "(userId \<times> socketId) list"
  nextId :: objectId

text \<open>
  Socket.IO events leaving the server. \<open>socket.emit\<close> and \<open>io.to(socketId).emit\<close> both
  reach the one socket with that id (\<open>To\<close>); \<open>socket.broadcast.emit\<close> reaches every
  connected socket but the given one (\<open>Broadcast_except\<close>). A payload is the value the
  document has when \<open>emit\<close> is called: the packet is encoded during the call. A message
  payload carries the sender's id; the user name and picture that \<open>populate\<close> adds to it
  are not modelled.
\<close>

datatype event =
    Message_error string
  | Receive_message message objectId
  | Message_sent message objectId
  | Message_status_updated objectId status
  | Messages_read objectId userId
  | User_online userId bool
  | User_offline userId bool date

datatype target = To socketId | Broadcast_except socketId

type_synonym emit = "target \<times> event"

text \<open>Responses of the HTTP controllers (\<open>sendError\<close>, \<open>sendSuccess\<close>). The page count of
  \<open>getMessages\<close> is a floating-point quotient and is not part of the modelled payload.\<close>

datatype responseData =
    Messages_data "message list" int nat bool
  | Updated_count nat
  | Accepted_data chatRequest conversation

datatype response =
    SendError nat string
  | SendSuccess nat string responseData

section \<open>Store operations\<close>

definition Conversation_findById :: "objectId \<Rightarrow> state \<Rightarrow> conversation option" where
  "Conversation_findById cid s = find (\<lambda>c. conv_id c = cid) (conversations s)"

text \<open>\<open>Conversation.findOne({participants: {$all: [a, b]}})\<close>: the first conversation
  whose participant array holds both ids.\<close>

definition Conversation_findOne_all :: "userId \<Rightarrow> userId \<Rightarrow> state \<Rightarrow> conversation option" where
  "Conversation_findOne_all a b s =
     find (\<lambda>c. a \<in> set (participants c) \<and> b \<in> set (participants c)) (conversations s)"

text \<open>\<open>Conversation.create({participants})\<close>: the schema validator accepts exactly two
  participants; the index on \<open>participants\<close> is not declared unique, so nothing else is
  checked.\<close>

definition Conversation_create :: "userId list \<Rightarrow> date \<Rightarrow> state \<Rightarrow> (conversation \<times> state) option" where
  "Conversation_create ps now s =
     (if length ps = 2 then
        let c = \<lparr>conv_id = nextId s, participants = ps, lastMessage = None,
                 unreadCount = [], updatedAt = now\<rparr>
        in Some (c, s\<lparr>conversations := conversations s @ [c], nextId := Suc (nextId s)\<rparr>)
      else None)"

definition Conversation_save :: "conversation \<Rightarrow> state \<Rightarrow> state" where
  "Conversation_save c s =
     s\<lparr>conversations := map (\<lambda>x. if conv_id x = conv_id c then c else x) (conversations s)\<rparr>"

definition allowed_types :: "string list" where
  "allowed_types = [''text'', ''image'', ''gif'', ''sticker'']"

text \<open>\<open>Message.create\<close> with \<open>status: 'sent'\<close>: the schema requires a non-empty content and a
  type of the enum; a document that fails validation is not stored and the call throws.\<close>

definition Message_create ::
  "objectId \<Rightarrow> userId \<Rightarrow> userId \<Rightarrow> string \<Rightarrow> string \<Rightarrow> state \<Rightarrow> (message \<times> state) option" where
  "Message_create cid sid rid t c s =
     (if t \<in> set allowed_types \<and> c \<noteq> [] then
        let m = \<lparr>msg_id = nextId s, conversationId = cid, sender = sid, receiver = rid,
                 mtype = t, content = c, status = Sent, isDeleted = False\<rparr>
        in Some (m, s\<lparr>messages := messages s @ [m], nextId := Suc (nextId s)\<rparr>)
      else None)"

definition Message_save :: "message \<Rightarrow> state \<Rightarrow> state" where
  "Message_save m s =
     s\<lparr>messages := map (\<lambda>x. if msg_id x = msg_id m then m else x) (messages s)\<rparr>"

definition Message_findById :: "objectId \<Rightarrow> state \<Rightarrow> message option" where
  "Message_findById mid s = find (\<lambda>m. msg_id m = mid) (messages s)"

text \<open>\<open>Message.findByIdAndUpdate(id, {status}, {new: true})\<close>: sets the status of the
  message with that id, whatever it was, and returns the updated document, or null when
  there is none.\<close>

fun set_status_by_id :: "objectId \<Rightarrow> status \<Rightarrow> message list \<Rightarrow> message option \<times> message list" where
  "set_status_by_id mid st [] = (None, [])"
| "set_status_by_id mid st (m # ms) =
     (if msg_id m = mid then (Some (m\<lparr>status := st\<rparr>), m\<lparr>status := st\<rparr> # ms)
      else (fst (set_status_by_id mid st ms), m # snd (set_status_by_id mid st ms)))"

definition Message_findByIdAndUpdate :: "objectId \<Rightarrow> status \<Rightarrow> state \<Rightarrow> message option \<times> state" where
  "Message_findByIdAndUpdate mid st s =
     (fst (set_status_by_id mid st (messages s)),
      s\<lparr>messages := snd (set_status_by_id mid st (messages s))\<rparr>)"

text \<open>\<open>Message.updateMany(filter, {status})\<close>\<close>

definition Message_updateMany :: "(message \<Rightarrow> bool) \<Rightarrow> status \<Rightarrow> state \<Rightarrow> state" where
  "Message_updateMany flt st s =
     s\<lparr>messages := map (\<lambda>m. if flt m then m\<lparr>status := st\<rparr> else m) (messages s)\<rparr>"

definition User_findByIdAndUpdate :: "userId \<Rightarrow> (user \<Rightarrow> user) \<Rightarrow> state \<Rightarrow> state" where
  "User_findByIdAndUpdate uid f s =
     s\<lparr>users := map (\<lambda>(k, u). if k = uid then (k, f u) else (k, u)) (users s)\<rparr>"

section \<open>Socket handlers\<close>

text \<open>The \<open>connection\<close> handler: records the socket id under the user id (replacing an
  earlier one), marks the user online and broadcasts \<open>user_online\<close>. The personal room
  joined by \<open>socket.join(userId)\<close> is addressed by no emit of the program.\<close>

definition connection :: "userId \<Rightarrow> socketId \<Rightarrow> state \<Rightarrow> state \<times> emit list" where
  "connection userId sock s =
     (let s1 = s\<lparr>connectedUsers := AList.update userId sock (connectedUsers s)\<rparr>;
          s2 = User_findByIdAndUpdate userId (\<lambda>u. u\<lparr>isOnline := True, socketId := Some sock\<rparr>) s1
      in (s2, [(Broadcast_except sock, User_online userId True)]))"

definition disconnect :: "userId \<Rightarrow> socketId \<Rightarrow> date \<Rightarrow> state \<Rightarrow> state \<times> emit list" where
  "disconnect userId sock now s =
     (let s1 = s\<lparr>connectedUsers := AList.delete userId (connectedUsers s)\<rparr>;
          s2 = User_findByIdAndUpdate userId
                 (\<lambda>u. u\<lparr>isOnline := False, lastSeen := now, socketId := None\<rparr>) s1
      in (s2, [(Broadcast_except sock, User_offline userId False now)]))"

text \<open>The payload of \<open>send_message\<close>. A field is \<open>None\<close> when the client left it out; the
  empty string is falsy as well.\<close>

record sendData =
  d_receiverId :: "userId option"
  d_type :: "string option"
  d_content :: "string option"
  d_conversationId :: "objectId option"

text \<open>\<open>if (!receiverId || !type || !content)\<close>: the destructured fields when all three are
  truthy.\<close>

definition required_fields :: "sendData \<Rightarrow> (userId \<times> string \<times> string) option" where
  "required_fields d =
     (case d_receiverId d of
        None \<Rightarrow> None
      | Some r \<Rightarrow>
          (case d_type d of
             None \<Rightarrow> None
           | Some t \<Rightarrow>
               (case d_content d of
                  None \<Rightarrow> None
                | Some c \<Rightarrow> if t = [] \<or> c = [] then None else Some (r, t, c))))"

text \<open>Find or create the conversation: by id when the client names one (null when there
  is none), else by the participant pair, created when the lookup finds nothing.\<close>

definition resolve_conversation ::
  "userId \<Rightarrow> userId \<Rightarrow> objectId option \<Rightarrow> date \<Rightarrow> state \<Rightarrow> conversation option \<times> state" where
  "resolve_conversation senderId receiverId cid now s =
     (case cid of
        Some i \<Rightarrow> (Conversation_findById i s, s)
      | None \<Rightarrow>
          (case Conversation_findOne_all senderId receiverId s of
             Some c \<Rightarrow> (Some c, s)
           | None \<Rightarrow>
               (case Conversation_create [senderId, receiverId] now s of
                  None \<Rightarrow> (None, s)
                | Some (c, s1) \<Rightarrow> (Some c, s1))))"

text \<open>The part of \<open>send_message\<close> after the message is stored: update the conversation,
  push to the receiver's registered socket, advance the status, confirm to the sender.\<close>

definition deliver ::
  "socketId \<Rightarrow> userId \<Rightarrow> date \<Rightarrow> conversation \<Rightarrow> message \<Rightarrow> state \<Rightarrow> state \<times> emit list" where
  "deliver sock receiverId now conv m s =
     (let currentUnread = (case map_of (unreadCount conv) receiverId of None \<Rightarrow> 0 | Some n \<Rightarrow> n);
          conv1 = conv\<lparr>lastMessage := Some (msg_id m), updatedAt := now,
                       unreadCount := AList.update receiverId (currentUnread + 1) (unreadCount conv)\<rparr>;
          s1 = Conversation_save conv1 s
      in (case map_of (connectedUsers s1) receiverId of
            None \<Rightarrow> (s1, [(To sock, Message_sent m (conv_id conv))])
          | Some receiverSocketId \<Rightarrow>
              (let m1 = m\<lparr>status := Delivered\<rparr>
               in (Message_save m1 s1,
                   [(To receiverSocketId, Receive_message m (conv_id conv)),
                    (To sock, Message_sent m1 (conv_id conv))]))))"

text \<open>The \<open>send_message\<close> handler of the socket \<open>sock\<close> authenticated as \<open>userId\<close>. A null
  conversation (\<open>conversation._id\<close> throws) and a rejected \<open>Message.create\<close> end in the
  \<open>catch\<close> block, which emits \<open>message_error\<close> and undoes nothing.\<close>

definition send_message :: "userId \<Rightarrow> socketId \<Rightarrow> date \<Rightarrow> sendData \<Rightarrow> state \<Rightarrow> state \<times> emit list" where
  "send_message userId sock now d s =
     (case required_fields d of
        None \<Rightarrow> (s, [(To sock, Message_error ''Missing required fields'')])
      | Some (receiverId, t, c) \<Rightarrow>
          (case resolve_conversation userId receiverId (d_conversationId d) now s of
             (None, s1) \<Rightarrow> (s1, [(To sock, Message_error ''Failed to send message'')])
           | (Some conv, s1) \<Rightarrow>
               (case Message_create (conv_id conv) userId receiverId t c s1 of
                  None \<Rightarrow> (s1, [(To sock, Message_error ''Failed to send message'')])
                | Some (m, s2) \<Rightarrow> deliver sock receiverId now conv m s2)))"

text \<open>The \<open>message_delivered\<close> handler: no check of the caller, no check of the current
  status, no event to the caller.\<close>

definition message_delivered :: "userId \<Rightarrow> socketId \<Rightarrow> objectId option \<Rightarrow> state \<Rightarrow> state \<times> emit list" where
  "message_delivered userId sock messageId s =
     (case messageId of
        None \<Rightarrow> (s, [])
      | Some mid \<Rightarrow>
          (case Message_findByIdAndUpdate mid Delivered s of
             (None, s1) \<Rightarrow> (s1, [])
           | (Some m, s1) \<Rightarrow>
               (case map_of (connectedUsers s1) (sender m) of
                  None \<Rightarrow> (s1, [])
                | Some senderSocketId \<Rightarrow>
                    (s1, [(To senderSocketId, Message_status_updated mid Delivered)]))))"

text \<open>The \<open>message_read\<close> handler: the single-message branch when \<open>messageId\<close> is given,
  else the conversation branch, which notifies the sender of every message addressed to
  the caller in that conversation.\<close>

definition message_read ::
  "userId \<Rightarrow> socketId \<Rightarrow> objectId option \<Rightarrow> objectId option \<Rightarrow> state \<Rightarrow> state \<times> emit list" where
  "message_read userId sock messageId cid s =
     (case messageId of
        Some mid \<Rightarrow>
          (case Message_findByIdAndUpdate mid Read s of
             (None, s1) \<Rightarrow> (s1, [])
           | (Some m, s1) \<Rightarrow>
               (case map_of (connectedUsers s1) (sender m) of
                  None \<Rightarrow> (s1, [])
                | Some senderSocketId \<Rightarrow>
                    (s1, [(To senderSocketId, Message_status_updated mid Read)])))
      | None \<Rightarrow>
          (case cid of
             None \<Rightarrow> (s, [])
           | Some c \<Rightarrow>
               (let s1 = Message_updateMany
                           (\<lambda>m. conversationId m = c \<and> receiver m = userId
                                 \<and> (status m = Sent \<or> status m = Delivered)) Read s;
                    msgs = filter (\<lambda>m. conversationId m = c \<and> receiver m = userId) (messages s1)
                in (s1, concat (map (\<lambda>msg.
                          (case map_of (connectedUsers s1) (sender msg) of
                             None \<Rightarrow> []
                           | Some senderSocketId \<Rightarrow>
                               [(To senderSocketId, Messages_read c userId)])) msgs)))))"

section \<open>HTTP controllers\<close>

text \<open>
  The controllers hold no handle on the socket server: every path ends in \<open>sendError\<close> or
  \<open>sendSuccess\<close>, and the list of emitted socket events is empty on each of them.
\<close>

text \<open>\<open>Message.find({conversationId}).sort({createdAt: -1}).skip(skip).limit(limit)\<close>:
  messages are stored in creation order, so the newest come first in the sorted result.
  The store rejects a negative skip (the query throws); a limit of zero means no limit,
  a negative one is taken by its absolute value.\<close>

definition Message_find_page :: "objectId \<Rightarrow> int \<Rightarrow> int \<Rightarrow> state \<Rightarrow> message list option" where
  "Message_find_page cid skip limit s =
     (if skip < 0 then None
      else
        let sorted = rev (filter (\<lambda>m. conversationId m = cid) (messages s));
            skipped = drop (nat skip) sorted
        in Some (if limit = 0 then skipped else take (nat \<bar>limit\<bar>) skipped))"

text \<open>controllers/messageController.js, \<open>getMessages\<close>; \<open>page\<close> and \<open>limit\<close> are the query
  parameters after \<open>parseInt\<close>.\<close>

definition getMessages ::
  "objectId \<Rightarrow> userId \<Rightarrow> int \<Rightarrow> int \<Rightarrow> state \<Rightarrow> state \<times> emit list \<times> response" where
  "getMessages cid userId page limit s =
     (case Conversation_findById cid s of
        None \<Rightarrow> (s, [], SendError 404 ''Conversation not found'')
      | Some conversation \<Rightarrow>
          if userId \<notin> set (participants conversation)
          then (s, [], SendError 403 ''Not authorized to access these messages'')
          else
            (let skip = (page - 1) * limit
             in (case Message_find_page cid skip limit s of
                   None \<Rightarrow> (s, [], SendError 500 ''Error retrieving messages'')
                 | Some msgs \<Rightarrow>
                     (let totalMessages = length (filter (\<lambda>m. conversationId m = cid) (messages s));
                          s1 = Message_updateMany
                                 (\<lambda>m. conversationId m = cid \<and> receiver m = userId \<and> status m = Sent)
                                 Delivered s
                      in (s1, [],
                          SendSuccess 200 ''Messages retrieved successfully''
                            (Messages_data (rev msgs) page totalMessages
                               (skip + int (length msgs) < int totalMessages)))))))"

text \<open>controllers/messageController.js, \<open>markMessagesAsRead\<close>. The schema has
  \<open>timestamps: true\<close>, so \<open>conversation.save()\<close> also writes the current time to
  \<open>updatedAt\<close>.\<close>

definition markMessagesAsRead :: "objectId \<Rightarrow> userId \<Rightarrow> date \<Rightarrow> state \<Rightarrow> state \<times> emit list \<times> response" where
  "markMessagesAsRead cid userId now s =
     (case Conversation_findById cid s of
        None \<Rightarrow> (s, [], SendError 404 ''Conversation not found'')
      | Some conversation \<Rightarrow>
          if userId \<notin> set (participants conversation)
          then (s, [], SendError 403 ''Not authorized'')
          else
            (let flt = (\<lambda>m. conversationId m = cid \<and> receiver m = userId
                             \<and> (status m = Sent \<or> status m = Delivered));
                 modifiedCount = length (filter flt (messages s));
                 s1 = Message_updateMany flt Read s;
                 s2 = Conversation_save
                        (conversation\<lparr>unreadCount := AList.update userId 0 (unreadCount conversation),
                                      updatedAt := now\<rparr>) s1
             in (s2, [], SendSuccess 200 ''Messages marked as read'' (Updated_count modifiedCount))))"

definition ChatRequest_findById :: "objectId \<Rightarrow> state \<Rightarrow> chatRequest option" where
  "ChatRequest_findById rid s = find (\<lambda>r. req_id r = rid) (chatRequests s)"

definition ChatRequest_save :: "chatRequest \<Rightarrow> state \<Rightarrow> state" where
  "ChatRequest_save r s =
     s\<lparr>chatRequests := map (\<lambda>x. if req_id x = req_id r then r else x) (chatRequests s)\<rparr>"

text \<open>controllers/requestController.js, \<open>acceptRequest\<close>: after the three checks the
  request is saved as accepted and \<open>Conversation.create\<close> is called with no lookup.\<close>

definition acceptRequest :: "objectId \<Rightarrow> userId \<Rightarrow> date \<Rightarrow> state \<Rightarrow> state \<times> emit list \<times> response" where
  "acceptRequest requestId userId now s =
     (case ChatRequest_findById requestId s of
        None \<Rightarrow> (s, [], SendError 404 ''Request not found'')
      | Some chatRequest \<Rightarrow>
          if req_receiver chatRequest \<noteq> userId
          then (s, [], SendError 403 ''Not authorized to accept this request'')
          else if req_status chatRequest \<noteq> Pending
          then (s, [], SendError 400 ''Request already processed'')
          else
            (let accepted = chatRequest\<lparr>req_status := Accepted\<rparr>;
                 s1 = ChatRequest_save accepted s
             in (case Conversation_create [req_sender chatRequest, req_receiver chatRequest] now s1 of
                   None \<Rightarrow> (s1, [], SendError 500 ''Error accepting request'')
                 | Some (conversation, s2) \<Rightarrow>
                     (s2, [], SendSuccess 200 ''Request accepted successfully''
                                (Accepted_data accepted conversation)))))"

section \<open>Predicates of the statements and sample data\<close>

text \<open>ObjectIds are unique and generated fresh: the ids of the stored conversations and
  messages are pairwise distinct and below the next id to be handed out.\<close>

definition ids_ok :: "state \<Rightarrow> bool" where
  "ids_ok s \<longleftrightarrow>
     distinct (map conv_id (conversations s)) \<and>
     list_all (\<lambda>c. conv_id c < nextId s) (conversations s) \<and>
     distinct (map msg_id (messages s)) \<and>
     list_all (\<lambda>m. msg_id m < nextId s) (messages s)"

text \<open>A payload that names a conversation names an existing one.\<close>

definition conversation_resolvable :: "sendData \<Rightarrow> state \<Rightarrow> bool" where
  "conversation_resolvable d s =
     (case d_conversationId d of None \<Rightarrow> True | Some i \<Rightarrow> Conversation_findById i s \<noteq> None)"


text \<open>The number of conversations whose participants include both users.\<close>

definition pair_count :: "userId \<Rightarrow> userId \<Rightarrow> state \<Rightarrow> nat" where
  "pair_count a b s =
     length (filter (\<lambda>c. a \<in> set (participants c) \<and> b \<in> set (participants c)) (conversations s))"

text \<open>Three registered users, their sockets, and the states of a few short runs.\<close>

definition alice :: userId where "alice = 1"
definition bob :: userId where "bob = 2"
definition carol :: userId where "carol = 3"

definition offline_user :: user where
  "offline_user = \<lparr>isOnline = False, lastSeen = 0, socketId = None\<rparr>"

text \<open>Alice has sent Bob a chat request, still pending; nobody is connected.\<close>

definition pending_request :: chatRequest where
  "pending_request = \<lparr>req_id = 50, req_sender = alice, req_receiver = bob, req_status = Pending\<rparr>"

definition initial_state :: state where
  "initial_state = \<lparr>conversations = [], messages = [], chatRequests = [pending_request],
     users = [(alice, offline_user), (bob, offline_user), (carol, offline_user)],
     connectedUsers = [], nextId = 100\<rparr>"

definition text_to :: "userId \<Rightarrow> sendData" where
  "text_to r = \<lparr>d_receiverId = Some r, d_type = Some ''text'', d_content = Some ''hi'',
               d_conversationId = None\<rparr>"

definition alice_online :: state where
  "alice_online = fst (connection alice 10 initial_state)"

definition both_online :: state where
  "both_online = fst (connection bob 20 alice_online)"

text \<open>Alice's first message to Bob: while Bob is connected (conversation 100, message
  101), and while he is not.\<close>

definition first_message :: state where
  "first_message = fst (send_message alice 10 5 (text_to bob) both_online)"

definition sent_offline :: state where
  "sent_offline = fst (send_message alice 10 5 (text_to bob) alice_online)"

text \<open>Bob accepts Alice's request after her first message.\<close>

definition accepted :: state where
  "accepted = fst (acceptRequest 50 bob 7 first_message)"

text \<open>Bob then marks message 101 read.\<close>

definition read_by_bob :: state where
  "read_by_bob = fst (message_read bob 20 (Some 101) None first_message)"

text \<open>Bob connects a second time, from another device.\<close>

definition two_sessions :: state where
  "two_sessions = fst (connection bob 21 both_online)"

text \<open>From there, his first socket closes; or he connects a third time and that third
  socket closes. Either way Bob still has a live session.\<close>

definition first_closed :: state where
  "first_closed = fst (disconnect bob 20 4 two_sessions)"


text \<open>Carol connects after the first message; she is no participant of conversation 100.\<close>

definition carol_online :: state where
  "carol_online = fst (connection carol 30 first_message)"

definition video_to :: "userId \<Rightarrow> sendData" where
  "video_to r = \<lparr>d_receiverId = Some r, d_type = Some ''video'', d_content = Some ''hi'',
                d_conversationId = None\<rparr>"

text \<open>Message 101 as \<open>Message.create\<close> stores it.\<close>

definition hi_101 :: message where
  "hi_101 = \<lparr>msg_id = 101, conversationId = 100, sender = alice, receiver = bob,
              mtype = ''text'', content = ''hi'', status = Sent, isDeleted = False\<rparr>"

definition text_into :: "objectId \<Rightarrow> userId \<Rightarrow> sendData" where
  "text_into cid r = \<lparr>d_receiverId = Some r, d_type = Some ''text'', d_content = Some ''hi'',
                      d_conversationId = Some cid\<rparr>"

section \<open>Properties\<close>

subsection \<open>Steps of \<open>send_message\<close>\<close>

lemma resolve_conversation_Some:
  assumes "conversation_resolvable d s"
  shows "\<exists>conv s1. resolve_conversation a b (d_conversationId d) now s = (Some conv, s1)
           \<and> messages s1 = messages s \<and> connectedUsers s1 = connectedUsers s
           \<and> nextId s \<le> nextId s1"
  using assms
  by (auto simp: conversation_resolvable_def resolve_conversation_def Conversation_create_def
      Let_def split: option.splits)

lemma required_fields_content:
  assumes "required_fields d = Some (r, t, c)"
  shows "d_receiverId d = Some r \<and> d_type d = Some t \<and> d_content d = Some c \<and> t \<noteq> [] \<and> c \<noteq> []"
  using assms by (auto simp: required_fields_def split: option.splits if_splits)

lemma Message_create_valid:
  assumes "t \<in> set allowed_types" and "c \<noteq> []"
  shows "Message_create cid a b t c s =
           Some (\<lparr>msg_id = nextId s, conversationId = cid, sender = a, receiver = b,
                   mtype = t, content = c, status = Sent, isDeleted = False\<rparr>,
                 s\<lparr>messages := messages s @
                      [\<lparr>msg_id = nextId s, conversationId = cid, sender = a, receiver = b,
                        mtype = t, content = c, status = Sent, isDeleted = False\<rparr>],
                    nextId := Suc (nextId s)\<rparr>)"
  using assms by (simp add: Message_create_def Let_def)


lemma deliver_online:
  assumes "map_of (connectedUsers s) r = Some kr"
  shows "deliver k r now conv m s =
           (Message_save (m\<lparr>status := Delivered\<rparr>)
             (Conversation_save (conv\<lparr>lastMessage := Some (msg_id m), updatedAt := now,
               unreadCount := AList.update r
                 ((case map_of (unreadCount conv) r of None \<Rightarrow> 0 | Some n \<Rightarrow> n) + 1)
                 (unreadCount conv)\<rparr>) s),
            [(To kr, Receive_message m (conv_id conv)),
             (To k, Message_sent (m\<lparr>status := Delivered\<rparr>) (conv_id conv))])"
  using assms by (simp add: deliver_def Let_def Conversation_save_def)

subsection \<open>A receiver without a registered socket\<close>



subsection \<open>What a send does to the store\<close>

lemma ids_ok_maps:
  "ids_ok s \<longleftrightarrow>
     distinct (map conv_id (conversations s)) \<and>
     list_all (\<lambda>i. i < nextId s) (map conv_id (conversations s)) \<and>
     distinct (map msg_id (messages s)) \<and>
     list_all (\<lambda>i. i < nextId s) (map msg_id (messages s))"
  by (simp add: ids_ok_def list_all_iff)

lemma ids_ok_same_ids:
  assumes "ids_ok s"
    and "map conv_id (conversations s') = map conv_id (conversations s)"
    and "map msg_id (messages s') = map msg_id (messages s)"
    and "nextId s' = nextId s"
  shows "ids_ok s'"
  using assms by (simp add: ids_ok_maps)

lemma ids_ok_append_message:
  assumes "ids_ok s" and "msg_id m = nextId s"
  shows "ids_ok (s\<lparr>messages := messages s @ [m], nextId := Suc (nextId s)\<rparr>)"
  using assms by (auto simp: ids_ok_def list_all_iff less_Suc_eq)

lemma ids_ok_append_conversation:
  assumes "ids_ok s" and "conv_id c = nextId s"
  shows "ids_ok (s\<lparr>conversations := conversations s @ [c], nextId := Suc (nextId s)\<rparr>)"
  using assms by (auto simp: ids_ok_def list_all_iff less_Suc_eq)

lemma ids_ok_unique_conversation:
  assumes "ids_ok s" and "c \<in> set (conversations s)"
  shows "\<forall>x\<in>set (conversations s). conv_id x = conv_id c \<longrightarrow> x = c"
  using assms by (auto simp: ids_ok_def distinct_map dest: inj_onD)

lemma pair_count_participants:
  "pair_count a b s =
     length (filter (\<lambda>ps. a \<in> set ps \<and> b \<in> set ps) (map participants (conversations s)))"
  by (simp add: pair_count_def filter_map comp_def)

lemma findOne_None_pair_count:
  "Conversation_findOne_all a b s = None \<longleftrightarrow> pair_count a b s = 0"
  by (auto simp: Conversation_findOne_all_def pair_count_def find_None_iff filter_empty_conv)

lemma find_last_only:
  assumes "\<forall>x\<in>set xs. \<not> P x" and "P y"
  shows "find P (xs @ [y]) = Some y"
  using assms by (induction xs) auto

lemma save_conv_ids:
  "map conv_id (map (\<lambda>x. if conv_id x = conv_id c then c else x) cs) = map conv_id cs"
  by (induction cs) auto

lemma save_conv_participants:
  assumes "\<forall>x\<in>set cs. conv_id x = conv_id c \<longrightarrow> participants x = participants c"
  shows "map participants (map (\<lambda>x. if conv_id x = conv_id c then c else x) cs) = map participants cs"
  using assms by (induction cs) auto

lemma save_msg_ids:
  "map msg_id (map (\<lambda>x. if msg_id x = msg_id m then m else x) ms) = map msg_id ms"
  by (induction ms) auto

lemma save_msg_conversationId:
  assumes "\<forall>x\<in>set ms. msg_id x = msg_id m \<longrightarrow> conversationId x = conversationId m"
  shows "map conversationId (map (\<lambda>x. if msg_id x = msg_id m then m else x) ms) = map conversationId ms"
  using assms by (induction ms) auto

lemma save_msg_appended:
  assumes "list_all (\<lambda>x. msg_id x < msg_id m) ms" and "msg_id m' = msg_id m"
  shows "map (\<lambda>x. if msg_id x = msg_id m' then m' else x) (ms @ [m]) = ms @ [m']"
  using assms by (induction ms) auto

lemma deliver_frame:
  "map conv_id (conversations (fst (deliver k r now conv m s))) = map conv_id (conversations s)"
  "map msg_id (messages (fst (deliver k r now conv m s))) = map msg_id (messages s)"
  "nextId (fst (deliver k r now conv m s)) = nextId s"
  by (simp_all add: deliver_def Let_def Conversation_save_def Message_save_def save_conv_ids
      save_msg_ids split: option.splits)

lemma deliver_conversations:
  "\<exists>c1. conv_id c1 = conv_id conv \<and> participants c1 = participants conv
      \<and> conversations (fst (deliver k r now conv m s))
          = map (\<lambda>x. if conv_id x = conv_id c1 then c1 else x) (conversations s)"
  by (rule exI[of _ "conv\<lparr>lastMessage := Some (msg_id m), updatedAt := now,
               unreadCount := AList.update r
                 ((case map_of (unreadCount conv) r of None \<Rightarrow> 0 | Some n \<Rightarrow> n) + 1)
                 (unreadCount conv)\<rparr>"])
     (simp add: deliver_def Let_def Conversation_save_def Message_save_def split: option.splits)

lemma deliver_messages:
  "messages (fst (deliver k r now conv m s)) = messages s
   \<or> messages (fst (deliver k r now conv m s))
        = map (\<lambda>x. if msg_id x = msg_id (m\<lparr>status := Delivered\<rparr>) then m\<lparr>status := Delivered\<rparr> else x)
            (messages s)"
  by (simp add: deliver_def Let_def Conversation_save_def Message_save_def split: option.splits)

lemma deliver_participants:
  assumes "\<forall>x\<in>set (conversations s). conv_id x = conv_id conv \<longrightarrow> participants x = participants conv"
  shows "map participants (conversations (fst (deliver k r now conv m s)))
           = map participants (conversations s)"
proof -
  from deliver_conversations[of conv k r now m s]
  obtain c1 where c1: "conv_id c1 = conv_id conv" "participants c1 = participants conv"
    and eq: "conversations (fst (deliver k r now conv m s))
          = map (\<lambda>x. if conv_id x = conv_id c1 then c1 else x) (conversations s)"
    by blast
  have "\<forall>x\<in>set (conversations s). conv_id x = conv_id c1 \<longrightarrow> participants x = participants c1"
    using assms c1 by simp
  from save_conv_participants[OF this] eq show ?thesis by simp
qed

lemma deliver_conversationIds:
  assumes "\<forall>x\<in>set (messages s). msg_id x = msg_id m \<longrightarrow> conversationId x = conversationId m"
  shows "map conversationId (messages (fst (deliver k r now conv m s)))
           = map conversationId (messages s)"
proof -
  have "\<forall>x\<in>set (messages s). msg_id x = msg_id (m\<lparr>status := Delivered\<rparr>)
          \<longrightarrow> conversationId x = conversationId (m\<lparr>status := Delivered\<rparr>)"
    using assms by simp
  from save_msg_conversationId[OF this] deliver_messages[of k r now conv m s]
  show ?thesis by auto
qed

text \<open>The conversation step either uses a stored conversation and leaves the collection
  alone, or (no id named, pair lookup empty) appends one conversation of the two users.\<close>

lemma resolve_conversation_cases:
  assumes "resolve_conversation a b cid now s = (Some conv, s1)"
  shows "(s1 = s \<and> conv \<in> set (conversations s))
       \<or> (cid = None \<and> Conversation_findOne_all a b s = None
            \<and> conv = \<lparr>conv_id = nextId s, participants = [a, b], lastMessage = None,
                       unreadCount = [], updatedAt = now\<rparr>
            \<and> s1 = s\<lparr>conversations := conversations s @ [conv], nextId := Suc (nextId s)\<rparr>)"
  using assms
  by (auto simp: resolve_conversation_def Conversation_findById_def Conversation_findOne_all_def
      Conversation_create_def Let_def find_Some_iff split: option.splits)

lemma resolve_conversation_None:
  assumes "resolve_conversation a b cid now s = (None, s1)"
  shows "s1 = s"
  using assms
  by (auto simp: resolve_conversation_def Conversation_create_def Let_def split: option.splits)

lemma Message_create_cases:
  assumes "c \<noteq> []"
  shows "Message_create cid a b t c s = None \<and> t \<notin> set allowed_types
   \<or> (\<exists>m. Message_create cid a b t c s
             = Some (m, s\<lparr>messages := messages s @ [m], nextId := Suc (nextId s)\<rparr>)
          \<and> msg_id m = nextId s \<and> conversationId m = cid \<and> t \<in> set allowed_types)"
  using assms by (simp add: Message_create_def Let_def)

lemma send_message_after_resolve:
  assumes fields: "required_fields d = Some (r, t, c)"
    and res: "resolve_conversation u r (d_conversationId d) now s = (Some conv, s1)"
    and ok1: "ids_ok s1"
    and mem: "conv \<in> set (conversations s1)"
  shows "ids_ok (fst (send_message u k now d s))
       \<and> map participants (conversations (fst (send_message u k now d s)))
           = map participants (conversations s1)
       \<and> map conv_id (conversations (fst (send_message u k now d s)))
           = map conv_id (conversations s1)
       \<and> (if t \<in> set allowed_types
          then map conversationId (messages (fst (send_message u k now d s)))
                 = map conversationId (messages s1) @ [conv_id conv]
          else messages (fst (send_message u k now d s)) = messages s1)"
proof -
  from required_fields_content[OF fields] have cne: "c \<noteq> []" by simp
  from Message_create_cases[OF cne, of "conv_id conv" u r t s1]
  show ?thesis
  proof (elim disjE conjE exE)
    assume "Message_create (conv_id conv) u r t c s1 = None" and "t \<notin> set allowed_types"
    then show ?thesis
      using fields res ok1 by (simp add: send_message_def)
  next
    fix m
    let ?s2 = "s1\<lparr>messages := messages s1 @ [m], nextId := Suc (nextId s1)\<rparr>"
    assume mc: "Message_create (conv_id conv) u r t c s1 = Some (m, ?s2)"
      and mid: "msg_id m = nextId s1" and mcv: "conversationId m = conv_id conv"
      and ty: "t \<in> set allowed_types"
    have sm: "fst (send_message u k now d s) = fst (deliver k r now conv m ?s2)"
      using fields res mc by (simp add: send_message_def)
    have ok2: "ids_ok ?s2" by (rule ids_ok_append_message[OF ok1 mid])
    have okd: "ids_ok (fst (deliver k r now conv m ?s2))"
      by (rule ids_ok_same_ids[OF ok2]) (simp_all only: deliver_frame)
    have uniq: "\<forall>x\<in>set (conversations ?s2). conv_id x = conv_id conv \<longrightarrow> participants x = participants conv"
      using ids_ok_unique_conversation[OF ok1 mem] by auto
    have munique: "\<forall>x\<in>set (messages ?s2). msg_id x = msg_id m \<longrightarrow> conversationId x = conversationId m"
      using ok1 mid by (auto simp: ids_ok_def list_all_iff)
    show ?thesis
      unfolding sm
      using okd deliver_participants[OF uniq, of k r now m]
        deliver_conversationIds[OF munique, of k r now conv]
        deliver_frame(1)[of k r now conv m ?s2] ty mcv
      by simp
  qed
qed

lemma send_message_creates:
  assumes ok: "ids_ok s"
    and fields: "required_fields d = Some (r, t, c)"
    and cid: "d_conversationId d = None"
    and none: "pair_count u r s = 0"
  shows "ids_ok (fst (send_message u k now d s))
       \<and> map participants (conversations (fst (send_message u k now d s)))
           = map participants (conversations s) @ [[u, r]]
       \<and> map conv_id (conversations (fst (send_message u k now d s)))
           = map conv_id (conversations s) @ [nextId s]
       \<and> (if t \<in> set allowed_types
          then map conversationId (messages (fst (send_message u k now d s)))
                 = map conversationId (messages s) @ [nextId s]
          else messages (fst (send_message u k now d s)) = messages s)"
proof -
  let ?conv = "\<lparr>conv_id = nextId s, participants = [u, r], lastMessage = None,
                 unreadCount = [], updatedAt = now\<rparr>"
  let ?s1 = "s\<lparr>conversations := conversations s @ [?conv], nextId := Suc (nextId s)\<rparr>"
  from none have nf: "Conversation_findOne_all u r s = None"
    by (simp add: findOne_None_pair_count)
  have res: "resolve_conversation u r (d_conversationId d) now s = (Some ?conv, ?s1)"
    using nf cid by (simp add: resolve_conversation_def Conversation_create_def Let_def)
  have ok1: "ids_ok ?s1" by (rule ids_ok_append_conversation[OF ok]) simp
  have mem: "?conv \<in> set (conversations ?s1)" by simp
  from send_message_after_resolve[OF fields res ok1 mem, of k]
  show ?thesis by simp
qed

lemma send_message_reuses:
  assumes ok: "ids_ok s"
    and fields: "required_fields d = Some (r, t, c)"
    and cid: "d_conversationId d = None"
    and found: "Conversation_findOne_all u r s = Some cv"
  shows "ids_ok (fst (send_message u k now d s))
       \<and> map participants (conversations (fst (send_message u k now d s)))
           = map participants (conversations s)
       \<and> map conv_id (conversations (fst (send_message u k now d s)))
           = map conv_id (conversations s)
       \<and> (if t \<in> set allowed_types
          then map conversationId (messages (fst (send_message u k now d s)))
                 = map conversationId (messages s) @ [conv_id cv]
          else messages (fst (send_message u k now d s)) = messages s)"
proof -
  have res: "resolve_conversation u r (d_conversationId d) now s = (Some cv, s)"
    using found cid by (simp add: resolve_conversation_def)
  have mem: "cv \<in> set (conversations s)"
    using found by (auto simp: Conversation_findOne_all_def find_Some_iff)
  from send_message_after_resolve[OF fields res ok mem, of k]
  show ?thesis by simp
qed

subsection \<open>One conversation per pair\<close>

text \<open>No send, with or without a conversation id in the payload, makes a second
  conversation for a pair of distinct users that has at most one.\<close>

lemma send_message_keeps_pairs_unique:
  assumes ok: "ids_ok s" and xy: "x \<noteq> y" and le: "pair_count x y s \<le> 1"
  shows "pair_count x y (fst (send_message u k now d s)) \<le> 1"
proof (cases "required_fields d")
  case None
  then show ?thesis using le by (simp add: send_message_def)
next
  case (Some f)
  then obtain r t c where fields: "required_fields d = Some (r, t, c)" by (cases f) auto
  obtain co s1 where res: "resolve_conversation u r (d_conversationId d) now s = (co, s1)"
    by (cases "resolve_conversation u r (d_conversationId d) now s") auto
  show ?thesis
  proof (cases co)
    case None
    with res resolve_conversation_None[of u r "d_conversationId d" now s s1]
    show ?thesis using fields le by (simp add: send_message_def)
  next
    case (Some conv)
    with res have res': "resolve_conversation u r (d_conversationId d) now s = (Some conv, s1)"
      by simp
    from resolve_conversation_cases[OF res'] show ?thesis
    proof (elim disjE conjE)
      assume s1: "s1 = s" and mem: "conv \<in> set (conversations s)"
      from send_message_after_resolve[OF fields res'[unfolded s1] ok mem, of k]
      show ?thesis using le by (simp add: pair_count_participants)
    next
      assume cid: "d_conversationId d = None"
        and nf: "Conversation_findOne_all u r s = None"
      from nf have none: "pair_count u r s = 0" by (simp add: findOne_None_pair_count)
      then have none': "pair_count r u s = 0" by (simp add: pair_count_def conj_commute)
      from send_message_creates[OF ok fields cid none, of k now]
      have p: "map participants (conversations (fst (send_message u k now d s)))
                 = map participants (conversations s) @ [[u, r]]" by simp
      have step: "pair_count x y (fst (send_message u k now d s))
                    = pair_count x y s + (if x \<in> set [u, r] \<and> y \<in> set [u, r] then 1 else 0)"
        unfolding pair_count_participants p by simp
      show ?thesis
      proof (cases "x \<in> set [u, r] \<and> y \<in> set [u, r]")
        case True
        with xy have "(x = u \<and> y = r) \<or> (x = r \<and> y = u)" by auto
        with none none' have "pair_count x y s = 0" by auto
        with True show ?thesis unfolding step by auto
      next
        case False
        with le show ?thesis unfolding step by auto
      qed
    qed
  qed
qed

text \<open>
  Two sends in a row. Let two distinct users have no conversation yet. A first valid
  \<open>send_message\<close> between them with no conversation id creates exactly one conversation
  (one id is appended to the collection, and the pair has one conversation), and a second
  valid send of the pair in either direction, run after the first has finished and again
  with no conversation id, creates none: the collection holds the same ids, the pair still
  has one conversation, and both stored messages are filed under it.
\<close>

lemma send_message_one_conversation_per_pair:
  assumes ok: "ids_ok s"
    and ab: "a \<noteq> b"
    and none: "pair_count a b s = 0"
    and d1: "required_fields d1 = Some (b, t1, c1)" and ty1: "t1 \<in> set allowed_types"
    and cid1: "d_conversationId d1 = None"
    and d2: "required_fields d2 = Some (r2, t2, c2)" and ty2: "t2 \<in> set allowed_types"
    and cid2: "d_conversationId d2 = None"
    and dir: "(u2 = a \<and> r2 = b) \<or> (u2 = b \<and> r2 = a)"
  shows "map conv_id (conversations (fst (send_message a ka now1 d1 s)))
           = map conv_id (conversations s) @ [nextId s]
       \<and> pair_count a b (fst (send_message a ka now1 d1 s)) = 1
       \<and> map conversationId (messages (fst (send_message a ka now1 d1 s)))
           = map conversationId (messages s) @ [nextId s]
       \<and> map conv_id (conversations (fst (send_message u2 k2 now2 d2 (fst (send_message a ka now1 d1 s)))))
           = map conv_id (conversations s) @ [nextId s]
       \<and> pair_count a b (fst (send_message u2 k2 now2 d2 (fst (send_message a ka now1 d1 s)))) = 1
       \<and> map conversationId (messages (fst (send_message u2 k2 now2 d2 (fst (send_message a ka now1 d1 s)))))
           = map conversationId (messages s) @ [nextId s, nextId s]"
proof -
  let ?s1 = "fst (send_message a ka now1 d1 s)"
  let ?s2 = "fst (send_message u2 k2 now2 d2 ?s1)"
  let ?P = "\<lambda>c. u2 \<in> set (participants c) \<and> r2 \<in> set (participants c)"
  from send_message_creates[OF ok d1 cid1 none, of ka now1] ty1
  have ok1: "ids_ok ?s1"
    and p1: "map participants (conversations ?s1) = map participants (conversations s) @ [[a, b]]"
    and i1: "map conv_id (conversations ?s1) = map conv_id (conversations s) @ [nextId s]"
    and m1: "map conversationId (messages ?s1) = map conversationId (messages s) @ [nextId s]"
    by simp_all
  have cnt1: "pair_count a b ?s1 = 1"
    using none by (simp add: pair_count_participants p1)
  from i1 obtain xs y where split: "conversations ?s1 = xs @ [y]"
    by (cases "conversations ?s1" rule: rev_exhaust) auto
  from p1 i1 split have px: "map participants xs = map participants (conversations s)"
    and py: "participants y = [a, b]" and iy: "conv_id y = nextId s"
    by simp_all
  from none have "\<forall>ps\<in>set (map participants (conversations s)). \<not> (a \<in> set ps \<and> b \<in> set ps)"
    by (simp add: pair_count_participants filter_empty_conv)
  then have "\<forall>ps\<in>set (map participants xs). \<not> (a \<in> set ps \<and> b \<in> set ps)"
    by (simp only: px)
  then have nox: "\<forall>x\<in>set xs. \<not> ?P x"
    using dir by auto
  have yes: "?P y" using dir py by auto
  have found: "Conversation_findOne_all u2 r2 ?s1 = Some y"
    unfolding Conversation_findOne_all_def split by (rule find_last_only[OF nox yes])
  from send_message_reuses[OF ok1 d2 cid2 found, of k2 now2] ty2
  have p2: "map participants (conversations ?s2) = map participants (conversations ?s1)"
    and i2: "map conv_id (conversations ?s2) = map conv_id (conversations ?s1)"
    and m2: "map conversationId (messages ?s2) = map conversationId (messages ?s1) @ [conv_id y]"
    by simp_all
  have cnt2: "pair_count a b ?s2 = 1"
    using cnt1 by (simp add: pair_count_participants p2)
  show ?thesis
    using i1 cnt1 m1 i2 cnt2 m2 iy by simp
qed

lemma send_message_one_conversation_per_pair_example:
  "ids_ok both_online \<and> alice \<noteq> bob \<and> pair_count alice bob both_online = 0
   \<and> required_fields (text_to bob) = Some (bob, ''text'', ''hi'')
   \<and> ''text'' \<in> set allowed_types \<and> d_conversationId (text_to bob) = None
   \<and> required_fields (text_to alice) = Some (alice, ''text'', ''hi'')
   \<and> d_conversationId (text_to alice) = None
   \<and> map conv_id (conversations (fst (send_message alice 10 5 (text_to bob) both_online))) = [100]
   \<and> pair_count alice bob (fst (send_message alice 10 5 (text_to bob) both_online)) = 1
   \<and> map conversationId (messages (fst (send_message alice 10 5 (text_to bob) both_online))) = [100]
   \<and> map conv_id (conversations (fst (send_message bob 20 6 (text_to alice)
         (fst (send_message alice 10 5 (text_to bob) both_online))))) = [100]
   \<and> pair_count alice bob (fst (send_message bob 20 6 (text_to alice)
         (fst (send_message alice 10 5 (text_to bob) both_online)))) = 1
   \<and> map conversationId (messages (fst (send_message bob 20 6 (text_to alice)
         (fst (send_message alice 10 5 (text_to bob) both_online))))) = [100, 100]"
proof -
  have h1: "ids_ok both_online" by code_simp
  have h2: "alice \<noteq> bob" by code_simp
  have h3: "pair_count alice bob both_online = 0" by code_simp
  have h4: "required_fields (text_to bob) = Some (bob, ''text'', ''hi'')" by code_simp
  have h5: "''text'' \<in> set allowed_types" by code_simp
  have h6: "d_conversationId (text_to bob) = None" by code_simp
  have h7: "required_fields (text_to alice) = Some (alice, ''text'', ''hi'')" by code_simp
  have h8: "d_conversationId (text_to alice) = None" by code_simp
  have h9: "(bob = alice \<and> alice = bob) \<or> (bob = bob \<and> alice = alice)" by simp
  have e1: "conversations both_online = []" by code_simp
  have e2: "messages both_online = []" by code_simp
  have e3: "nextId both_online = 100" by code_simp
  from send_message_one_conversation_per_pair[OF h1 h2 h3 h4 h5 h6 h7 h5 h8 h9, of 10 5 20 6]
    h1 h2 h3 h4 h5 h6 h7 h8
  show ?thesis by (simp add: e1 e2 e3)
qed

text \<open>
  The lookup and the creation are two separate calls of the store. When the lookups of two
  first sends of a pair both run before either creation, both find nothing, and the two
  creations that follow store two conversations of the pair: nothing in
  \<open>Conversation.create\<close> looks for an existing one.
\<close>

lemma overlapping_first_sends_duplicate:
  "Conversation_findOne_all alice bob both_online = None
   \<and> Conversation_findOne_all bob alice both_online = None
   \<and> map_option (\<lambda>(c1, s1). map_option (\<lambda>(c2, s2). pair_count alice bob s2)
                                    (Conversation_create [bob, alice] 6 s1))
         (Conversation_create [alice, bob] 5 both_online) = Some (Some 2)"
  by code_simp

text \<open>
  Claim C2 at its failing input: at most one conversation per pair of distinct users.
  Alice's first message to Bob has created conversation 100, the only one of the pair.
  Bob then accepts her pending chat request, and the pair has two conversations, 100 and
  102. A further send from Alice to Bob with no conversation id files its message under
  conversation 100 and the pair keeps its two conversations.
\<close>

theorem accepted_pair_has_two_conversations:
  "pair_count alice bob first_message = 1
   \<and> pair_count alice bob accepted = 2
   \<and> map conv_id (conversations accepted) = [100, 102]
   \<and> pair_count alice bob (fst (send_message alice 10 8 (text_to bob) accepted)) = 2
   \<and> map conversationId (messages (fst (send_message alice 10 8 (text_to bob) accepted)))
       = [100, 100]"
  by code_simp


subsection \<open>Two sessions of one user\<close>





subsection \<open>Payloads of a delivered send\<close>

text \<open>
  Against claim C4 as stated: Alice sends Bob a text while both are connected. The
  \<open>receive_message\<close> payload pushed to Bob carries status \<open>sent\<close>, not \<open>delivered\<close>: the
  event is emitted before the status is advanced. And when Bob is connected on sockets 20
  and 21 and socket 20 has closed, he is still live on 21 but has no entry in
  \<open>connectedUsers\<close>: nothing is pushed to him and Alice's \<open>message_sent\<close> carries status
  \<open>sent\<close>.
\<close>

theorem receive_message_carries_sent:
  "snd (send_message alice 10 5 (text_to bob) both_online)
     = [(To 20, Receive_message hi_101 100),
        (To 10, Message_sent (hi_101\<lparr>status := Delivered\<rparr>) 100)]
   \<and> status hi_101 = Sent
   \<and> snd (send_message alice 10 5 (text_to bob) first_closed)
       = [(To 10, Message_sent hi_101 100)]"
  by code_simp

text \<open>
  Claim C4, amended. For a valid text \<open>send_message\<close> from A to B while \<open>connectedUsers\<close>
  holds a socket id for B (ObjectIds in the store being unique), that socket receives
  \<open>receive_message\<close> carrying the new message with the status it was created with, \<open>sent\<close>;
  A's socket then receives \<open>message_sent\<close> carrying the same message (same id) with status
  \<open>delivered\<close>, which is also the status stored.
\<close>

theorem online_receiver_payloads:
  assumes ok: "ids_ok s"
    and fields: "required_fields d = Some (b, ''text'', c)"
    and res: "conversation_resolvable d s"
    and on: "map_of (connectedUsers s) b = Some kb"
  shows "\<exists>m cid. snd (send_message a ka now d s)
              = [(To kb, Receive_message m cid), (To ka, Message_sent (m\<lparr>status := Delivered\<rparr>) cid)]
           \<and> status m = Sent \<and> sender m = a \<and> receiver m = b \<and> mtype m = ''text''
           \<and> messages (fst (send_message a ka now d s)) = messages s @ [m\<lparr>status := Delivered\<rparr>]"
proof -
  from resolve_conversation_Some[OF res]
  obtain conv s1 where r: "resolve_conversation a b (d_conversationId d) now s = (Some conv, s1)"
    and m1: "messages s1 = messages s" and c1: "connectedUsers s1 = connectedUsers s"
    and n1: "nextId s \<le> nextId s1"
    by blast
  from required_fields_content[OF fields] have cne: "c \<noteq> []" by simp
  have ty: "''text'' \<in> set allowed_types" by (simp add: allowed_types_def)
  define m where "m = \<lparr>msg_id = nextId s1, conversationId = conv_id conv, sender = a, receiver = b,
                 mtype = ''text'', content = c, status = Sent, isDeleted = False\<rparr>"
  define s2 where "s2 = s1\<lparr>messages := messages s1 @ [m], nextId := Suc (nextId s1)\<rparr>"
  have mc: "Message_create (conv_id conv) a b ''text'' c s1 = Some (m, s2)"
    using Message_create_valid[OF ty cne] by (simp add: m_def s2_def)
  have on2: "map_of (connectedUsers s2) b = Some kb"
    using on c1 by (simp add: s2_def)
  have sm: "send_message a ka now d s = deliver ka b now conv m s2"
    using fields r mc by (simp add: send_message_def)
  have older: "list_all (\<lambda>x. msg_id x < msg_id m) (messages s)"
    using ok n1 by (auto simp: ids_ok_def m_def list_all_iff)
  have saved: "map (\<lambda>x. if msg_id x = msg_id (m\<lparr>status := Delivered\<rparr>) then m\<lparr>status := Delivered\<rparr> else x)
                 (messages s @ [m]) = messages s @ [m\<lparr>status := Delivered\<rparr>]"
    by (rule save_msg_appended[OF older]) simp
  show ?thesis
    unfolding sm deliver_online[OF on2]
    apply (rule exI[of _ m], rule exI[of _ "conv_id conv"])
    using saved
    apply (simp add: s2_def m1 Message_save_def Conversation_save_def)
    apply (simp add: m_def)
    done
qed

theorem online_receiver_payloads_witness:
  "ids_ok both_online
   \<and> required_fields (text_to bob) = Some (bob, ''text'', ''hi'')
   \<and> conversation_resolvable (text_to bob) both_online
   \<and> map_of (connectedUsers both_online) bob = Some 20
   \<and> (\<exists>m cid. snd (send_message alice 10 5 (text_to bob) both_online)
              = [(To 20, Receive_message m cid), (To 10, Message_sent (m\<lparr>status := Delivered\<rparr>) cid)]
           \<and> status m = Sent \<and> sender m = alice \<and> receiver m = bob \<and> mtype m = ''text''
           \<and> messages (fst (send_message alice 10 5 (text_to bob) both_online))
               = messages both_online @ [m\<lparr>status := Delivered\<rparr>])"
proof -
  have h1: "ids_ok both_online" by code_simp
  have h2: "required_fields (text_to bob) = Some (bob, ''text'', ''hi'')" by code_simp
  have h3: "conversation_resolvable (text_to bob) both_online" by code_simp
  have h4: "map_of (connectedUsers both_online) bob = Some 20" by code_simp
  from online_receiver_payloads[OF h1 h2 h3 h4, of alice 10 5] h1 h2 h3 h4
  show ?thesis by blast
qed

subsection \<open>Reading the history\<close>

text \<open>
  Against claim C10 as stated: Bob is a participant of conversation 100, which holds one
  message addressed to him with status \<open>sent\<close>. His call with \<open>page = 0\<close> and the default
  limit asks the store for a skip of -50: the query is rejected, the call ends in the 500
  response before the update, and the message is still \<open>sent\<close>.
\<close>

theorem getMessages_page_zero_updates_nothing:
  "map status (messages sent_offline) = [Sent]
   \<and> map receiver (messages sent_offline) = [bob]
   \<and> map participants (conversations sent_offline) = [[alice, bob]]
   \<and> getMessages 100 bob 0 50 sent_offline
       = (sent_offline, [], SendError 500 ''Error retrieving messages'')"
  by code_simp

text \<open>
  Claim C10, amended. Retrieving the history is not read-only. For every call of
  \<open>getMessages\<close> by a participant of an existing conversation whose pagination gives a
  non-negative skip, \<open>(page - 1) * limit \<ge> 0\<close>, the response is a success, every message
  of that conversation whose receiver is the caller and whose status is \<open>sent\<close> is stored
  as \<open>delivered\<close>, every other message and every other collection is left as it was, and
  no socket event is emitted.
\<close>

theorem getMessages_marks_delivered:
  assumes conv: "Conversation_findById cid s = Some conv"
    and part: "u \<in> set (participants conv)"
    and page_ok: "0 \<le> (page - 1) * limit"
  shows "\<exists>data. getMessages cid u page limit s =
           (s\<lparr>messages := map (\<lambda>m. if conversationId m = cid \<and> receiver m = u \<and> status m = Sent
                                      then m\<lparr>status := Delivered\<rparr> else m) (messages s)\<rparr>,
            [],
            SendSuccess 200 ''Messages retrieved successfully'' data)"
  using assms
  by (simp add: getMessages_def Message_find_page_def Message_updateMany_def Let_def)

theorem getMessages_marks_delivered_witness:
  "Conversation_findById 100 sent_offline
     = Some \<lparr>conv_id = 100, participants = [alice, bob], lastMessage = Some 101,
              unreadCount = [(bob, 1)], updatedAt = 5\<rparr>
   \<and> bob \<in> set [alice, bob]
   \<and> (0::int) \<le> (1 - 1) * 50
   \<and> messages sent_offline = [hi_101]
   \<and> (\<exists>data. getMessages 100 bob 1 50 sent_offline =
           (sent_offline\<lparr>messages := [hi_101\<lparr>status := Delivered\<rparr>]\<rparr>,
            [],
            SendSuccess 200 ''Messages retrieved successfully'' data))"
proof -
  have h1: "Conversation_findById 100 sent_offline
     = Some \<lparr>conv_id = 100, participants = [alice, bob], lastMessage = Some 101,
              unreadCount = [(bob, 1)], updatedAt = 5\<rparr>" by code_simp
  have h2: "bob \<in> set (participants \<lparr>conv_id = 100, participants = [alice, bob], lastMessage = Some 101,
              unreadCount = [(bob, 1)], updatedAt = 5\<rparr>)" by simp
  have h3: "(0::int) \<le> (1 - 1) * 50" by simp
  have e: "messages sent_offline = [hi_101]" by code_simp
  have c: "conversationId hi_101 = 100 \<and> receiver hi_101 = bob \<and> status hi_101 = Sent" by code_simp
  from getMessages_marks_delivered[OF h1 h2 h3] h1 h3 e c
  show ?thesis by simp
qed

subsection \<open>The delivered mark\<close>

lemma set_status_by_id_fst:
  "fst (set_status_by_id mid st ms)
     = map_option (\<lambda>m. m\<lparr>status := st\<rparr>) (find (\<lambda>m. msg_id m = mid) ms)"
  by (induction ms) auto

lemma set_status_by_id_find:
  "find (\<lambda>m. msg_id m = mid) (snd (set_status_by_id mid st ms))
     = map_option (\<lambda>m. m\<lparr>status := st\<rparr>) (find (\<lambda>m. msg_id m = mid) ms)"
  by (induction ms) auto

lemma message_delivered_store:
  "fst (message_delivered u k (Some mid) s)
     = s\<lparr>messages := snd (set_status_by_id mid Delivered (messages s))\<rparr>"
  by (simp add: message_delivered_def Message_findByIdAndUpdate_def split: option.splits)

text \<open>The handler stores \<open>delivered\<close> on any message it finds, whatever the status was: a
  repeated mark keeps \<open>delivered\<close>, a mark on a read message takes it back.\<close>

lemma message_delivered_overwrites:
  assumes "Message_findById mid s = Some m"
  shows "Message_findById mid (fst (message_delivered u k (Some mid) s))
           = Some (m\<lparr>status := Delivered\<rparr>)"
  using assms by (simp add: message_delivered_store Message_findById_def set_status_by_id_find)

text \<open>
  Claim C1 at its failing input: message 101 has been read by Bob (status \<open>read\<close>); a
  \<open>message_delivered\<close> event for it stores status \<open>delivered\<close> and tells the sender so.
\<close>

theorem delivered_mark_regresses_read:
  "map status (messages read_by_bob) = [Read]
   \<and> map status (messages (fst (message_delivered bob 20 (Some 101) read_by_bob))) = [Delivered]
   \<and> snd (message_delivered bob 20 (Some 101) read_by_bob)
       = [(To 10, Message_status_updated 101 Delivered)]"
  by code_simp

subsection \<open>Rejected payloads\<close>

lemma required_fields_None_iff:
  "required_fields d = None \<longleftrightarrow>
     d_receiverId d = None \<or> d_type d = None \<or> d_type d = Some [] \<or>
     d_content d = None \<or> d_content d = Some []"
  by (auto simp: required_fields_def split: option.splits)

lemma send_message_missing_fields:
  assumes "required_fields d = None"
  shows "send_message u k now d s = (s, [(To k, Message_error ''Missing required fields'')])"
  using assms by (simp add: send_message_def)

text \<open>
  Claim C5 at its failing input: Alice and Bob have no conversation, and Alice sends
  a payload whose type is \<open>video\<close>. She receives \<open>message_error\<close>, and the conversation
  created before the message was rejected stays in the store.
\<close>

theorem invalid_type_leaves_conversation:
  "conversations both_online = []
   \<and> send_message alice 10 5 (video_to bob) both_online
       = (both_online\<lparr>conversations :=
                         [\<lparr>conv_id = 100, participants = [alice, bob], lastMessage = None,
                            unreadCount = [], updatedAt = 5\<rparr>],
                       nextId := 101\<rparr>,
          [(To 10, Message_error ''Failed to send message'')])"
  by code_simp

subsection \<open>Accepting a chat request\<close>

lemma acceptRequest_appends_conversation:
  assumes "ChatRequest_findById rid s = Some r"
    and "req_receiver r = u" and "req_status r = Pending"
  shows "map participants (conversations (fst (acceptRequest rid u now s)))
           = map participants (conversations s) @ [[req_sender r, req_receiver r]]"
  using assms
  by (simp add: acceptRequest_def Conversation_create_def ChatRequest_save_def Let_def)

text \<open>
  Claim C6 at its failing input: Alice's request to Bob is pending and the two already
  have conversation 100 (from Alice's first message). Bob accepts: a second conversation
  of the same two participants is stored.
\<close>

theorem acceptRequest_duplicates_conversation:
  "map participants (conversations first_message) = [[alice, bob]]
   \<and> map req_status (chatRequests first_message) = [Pending]
   \<and> map participants (conversations (fst (acceptRequest 50 bob 7 first_message)))
       = [[alice, bob], [alice, bob]]
   \<and> map conv_id (conversations (fst (acceptRequest 50 bob 7 first_message))) = [100, 102]
   \<and> pair_count alice bob (fst (acceptRequest 50 bob 7 first_message)) = 2"
  by code_simp

subsection \<open>Marking a conversation read\<close>

lemma message_read_conversation_store:
  "fst (message_read u k None (Some c) s)
     = s\<lparr>messages := map (\<lambda>m. if conversationId m = c \<and> receiver m = u
                                   \<and> (status m = Sent \<or> status m = Delivered)
                                then m\<lparr>status := Read\<rparr> else m) (messages s)\<rparr>"
  by (simp add: message_read_def Message_updateMany_def Let_def)

lemma markMessagesAsRead_store:
  assumes "Conversation_findById c s = Some conv" and "u \<in> set (participants conv)"
  shows "messages (fst (markMessagesAsRead c u now s))
           = map (\<lambda>m. if conversationId m = c \<and> receiver m = u
                          \<and> (status m = Sent \<or> status m = Delivered)
                       then m\<lparr>status := Read\<rparr> else m) (messages s)
       \<and> map_option (\<lambda>x. map_of (unreadCount x) u) (Conversation_findById c (fst (markMessagesAsRead c u now s)))
           = Some (Some 0)"
proof -
  from assms(1) have cid: "conv_id conv = c"
    by (auto simp: Conversation_findById_def find_Some_iff)
  have f: "find (\<lambda>x. conv_id x = c) (map (\<lambda>x. if conv_id x = c then conv' else x) cs) = Some conv'"
    if "find (\<lambda>x. conv_id x = c) cs = Some conv" and "conv_id conv' = c" for cs conv'
    using that by (induction cs) (auto split: if_splits)
  show ?thesis
    using assms cid f[of "conversations s" "conv\<lparr>unreadCount := AList.update u 0 (unreadCount conv),
                                     updatedAt := now\<rparr>"]
    by (simp add: markMessagesAsRead_def Conversation_findById_def Conversation_save_def
        Message_updateMany_def Let_def update_conv')
qed

text \<open>
  Claim C7 at its failing input: Bob has one unread message in conversation 100. The
  socket event \<open>message_read\<close> with the conversation id marks the message read and leaves
  Bob's unread counter at 1; the HTTP endpoint on the same state sets it to 0.
\<close>

theorem socket_read_keeps_unread_counter:
  "map unreadCount (conversations first_message) = [[(bob, 1)]]
   \<and> map status (messages (fst (message_read bob 20 None (Some 100) first_message))) = [Read]
   \<and> map unreadCount (conversations (fst (message_read bob 20 None (Some 100) first_message)))
       = [[(bob, 1)]]
   \<and> map unreadCount (conversations (fst (markMessagesAsRead 100 bob 9 first_message)))
       = [[(bob, 0)]]"
  by code_simp

subsection \<open>Callers outside a conversation\<close>

text \<open>
  Claim C8 at its failing inputs: Carol is no participant of conversation 100. Her
  \<open>send_message\<close> naming that conversation stores her message in it, raises Bob's unread
  counter and is confirmed with \<open>message_sent\<close>; her \<open>message_read\<close> for message 101, which
  Alice sent to Bob, stores status \<open>read\<close>. Neither emits an error event to her socket 30.
\<close>

theorem outsider_send_and_mark_accepted:
  "map participants (conversations carol_online) = [[alice, bob]]
   \<and> map sender (messages (fst (send_message carol 30 8 (text_into 100 bob) carol_online)))
       = [alice, carol]
   \<and> map conversationId (messages (fst (send_message carol 30 8 (text_into 100 bob) carol_online)))
       = [100, 100]
   \<and> map unreadCount (conversations (fst (send_message carol 30 8 (text_into 100 bob) carol_online)))
       = [[(bob, 2)]]
   \<and> snd (send_message carol 30 8 (text_into 100 bob) carol_online)
       = [(To 20, Receive_message
                    \<lparr>msg_id = 102, conversationId = 100, sender = carol, receiver = bob,
                      mtype = ''text'', content = ''hi'', status = Sent, isDeleted = False\<rparr> 100),
          (To 30, Message_sent
                    \<lparr>msg_id = 102, conversationId = 100, sender = carol, receiver = bob,
                      mtype = ''text'', content = ''hi'', status = Delivered, isDeleted = False\<rparr> 100)]
   \<and> map status (messages carol_online) = [Delivered]
   \<and> map status (messages (fst (message_read carol 30 (Some 101) None carol_online))) = [Read]
   \<and> snd (message_read carol 30 (Some 101) None carol_online)
       = [(To 10, Message_status_updated 101 Read)]"
  by code_simp

end
